theory Spec2Isabelle
  imports Complex_Main
begin

section \<open>Numbers, buffers and the store\<close>

text \<open>
  The library of \<^verbatim>\<open>src/main.js\<close> builds 4x4 matrices as flat buffers of 16 numbers
  and multiplies them. Numbers are modelled as real numbers: the rounding of
  \<^verbatim>\<open>Float32Array\<close> stores, \<^verbatim>\<open>NaN\<close> and the infinities are outside this model.

  A buffer is the list of its elements. Buffers live in a store: an address is an index
  into the list of all buffers allocated so far, and \<^verbatim>\<open>new Float32Array(...)\<close>
  appends a buffer and returns its address. The store is what makes the aliasing inside
  \<^verbatim>\<open>multiply\<close> visible: two references are the same buffer exactly when they are
  the same address.
\<close>

type_synonym buffer = "real list"
type_synonym addr = nat
type_synonym heap = "buffer list"

text \<open>
  The errors a call can end with: \<^verbatim>\<open>throw new Error(msg)\<close>, and the
  \<^verbatim>\<open>TypeError\<close> the language raises by itself.
\<close>

datatype error = Error string | TypeError string

definition alloc :: "heap \<Rightarrow> buffer \<Rightarrow> heap \<times> addr" where
  "alloc h b = (h @ [b], length h)"

text \<open>
  \<open>rd h a i\<close> is the read \<^verbatim>\<open>a[i]\<close>, \<open>wr h a i v\<close> the store \<^verbatim>\<open>a[i] = v\<close>.
  Every buffer of this library has 16 elements and every index the code computes is
  below 16. A read past the end of a shorter buffer gives \<^verbatim>\<open>undefined\<close>, which the
  arithmetic turns into \<^verbatim>\<open>NaN\<close>; the reals have no such value, so the theorems
  about \<open>multiply\<close> assume 16-element arguments. A store past the end of a typed array
  is ignored, as \<open>list_update\<close> does.
\<close>

definition rd :: "heap \<Rightarrow> addr \<Rightarrow> nat \<Rightarrow> real" where
  "rd h a i = h ! a ! i"

definition wr :: "heap \<Rightarrow> addr \<Rightarrow> nat \<Rightarrow> real \<Rightarrow> heap" where
  "wr h a i v = h[a := (h ! a)[i := v]]"

section \<open>Constructors\<close>

text \<open>\<^verbatim>\<open>setIdentity\<close> (lines 8-14).\<close>

definition setIdentity :: buffer where
  "setIdentity =
     [1, 0, 0, 0,
      0, 1, 0, 0,
      0, 0, 1, 0,
      0, 0, 0, 1]"

text \<open>
  \<^verbatim>\<open>setOrtogonalProjection\<close> (lines 26-37) and \<^verbatim>\<open>setPerspectiveProjection\<close>
  (lines 47-60). The parameters are the values after the default arguments have been
  filled in (the default of \<^verbatim>\<open>fov\<close> reads the browser's \<^verbatim>\<open>window\<close>, which is
  not part of the model). The divisors \<open>width\<close>, \<open>height\<close>, \<open>depth\<close>, \<open>aspect\<close> and
  \<open>far - near\<close> are not zero where the guards let the call through. The specification
  calls the first error
  \<^verbatim>\<open>InvalidVolumeError\<close> and the second \<^verbatim>\<open>InvalidDistanceError\<close>; the
  source raises a plain \<^verbatim>\<open>Error\<close> with the messages below.
\<close>

definition InvalidVolumeError :: error where
  "InvalidVolumeError = Error ''The visibility area is zero''"


definition setOrtogonalProjection ::
  "real \<Rightarrow> real \<Rightarrow> real \<Rightarrow> real \<Rightarrow> real \<Rightarrow> real \<Rightarrow> error + buffer" where
  "setOrtogonalProjection left right top' bottom near far =
     (if left = right \<or> top' = bottom \<or> near = far then Inl InvalidVolumeError
      else
        let width = right - left;
            height = top' - bottom;
            depth = far - near
        in Inr
          [2 / width, 0, 0, 0,
           0, 2 / height, 0, 0,
           0, 0, - 2 / depth, 0,
           - (right + left) * width, - (top' + bottom) * height, - (far + near) * depth, 1])"



text \<open>\<^verbatim>\<open>setTranslate\<close> (lines 108-114) and \<^verbatim>\<open>setScale\<close> (lines 168-174).\<close>

definition setTranslate :: "real \<Rightarrow> real \<Rightarrow> real \<Rightarrow> buffer" where
  "setTranslate x y z =
     [1, 0, 0, 0,
      0, 1, 0, 0,
      0, 0, 1, 0,
      x, y, z, 1]"

definition setScale :: "real \<Rightarrow> real \<Rightarrow> real \<Rightarrow> buffer" where
  "setScale x y z =
     [x, 0, 0, 0,
      0, y, 0, 0,
      0, 0, z, 0,
      0, 0, 0, 1]"

section \<open>Multiplication\<close>

text \<open>
  The guard \<^verbatim>\<open>matrix < 2\<close> (line 182) compares the array of the arguments with a
  number. The language first turns the array into a string, the elements joined by
  commas, each element (a buffer) printed the same way; then it turns the string into a
  number: the empty string is 0, the text of one number is that number, and anything with
  a comma in it is \<^verbatim>\<open>NaN\<close>. A comparison with \<^verbatim>\<open>NaN\<close> is false. \<open>None\<close>
  stands for \<^verbatim>\<open>NaN\<close> here.
\<close>

fun array_to_number :: "buffer list \<Rightarrow> real option" where
  "array_to_number [] = Some 0"
| "array_to_number [[]] = Some 0"
| "array_to_number [[x]] = Some x"
| "array_to_number _ = None"

definition array_lt_2 :: "buffer list \<Rightarrow> bool" where
  "array_lt_2 bs = (case array_to_number bs of None \<Rightarrow> False | Some v \<Rightarrow> v < 2)"

text \<open>
  One pass of the inner loop body (lines 187-190) for row \<open>i\<close>: four stores into the
  buffer at \<open>mat\<close>, each reading the left operand at \<open>l\<close> and the right operand at \<open>r\<close>
  from the store as the stores before it have left it.
\<close>

definition row_step :: "addr \<Rightarrow> addr \<Rightarrow> addr \<Rightarrow> nat \<Rightarrow> heap \<Rightarrow> heap" where
  "row_step l r mat i h =
     (let h1 = wr h mat i
            (rd h l i * rd h r 0 + rd h l (i + 4) * rd h r 1
              + rd h l (i + 8) * rd h r 2 + rd h l (i + 12) * rd h r 3);
          h2 = wr h1 mat (i + 4)
            (rd h1 l i * rd h1 r 4 + rd h1 l (i + 4) * rd h1 r 5
              + rd h1 l (i + 8) * rd h1 r 6 + rd h1 l (i + 12) * rd h1 r 7);
          h3 = wr h2 mat (i + 8)
            (rd h2 l i * rd h2 r 8 + rd h2 l (i + 4) * rd h2 r 9
              + rd h2 l (i + 8) * rd h2 r 10 + rd h2 l (i + 12) * rd h2 r 11);
          h4 = wr h3 mat (i + 12)
            (rd h3 l i * rd h3 r 12 + rd h3 l (i + 4) * rd h3 r 13
              + rd h3 l (i + 8) * rd h3 r 14 + rd h3 l (i + 12) * rd h3 r 15)
      in h4)"

text \<open>The inner loop \<^verbatim>\<open>for (let i = 0; i < 4; i++)\<close> (line 186).\<close>

function row_loop :: "addr \<Rightarrow> addr \<Rightarrow> addr \<Rightarrow> nat \<Rightarrow> heap \<Rightarrow> heap" where
  "row_loop l r mat i h =
     (if i < 4 then row_loop l r mat (Suc i) (row_step l r mat i h) else h)"
  by pat_completeness auto
termination
  by (relation "measure (\<lambda>(l, r, mat, i, h). 4 - i)") auto

declare row_loop.simps [simp del]

text \<open>
  The outer loop \<^verbatim>\<open>for (let n = 0; n < matrix.length - 1; n++)\<close> (lines 185-193).
  \<open>matrix\<close> is the array of the rest parameter: a new array that holds the addresses of
  the arguments, local to the call. Line 192 overwrites its slot \<open>n + 1\<close> with the
  address of the result buffer, so from the second pass on the left operand is the
  result buffer itself. (For the empty array the bound is \<open>-1\<close> in the source and
  \<open>0\<close> here; no pass runs either way.)
\<close>

function mul_loop :: "addr \<Rightarrow> nat \<Rightarrow> heap \<Rightarrow> addr list \<Rightarrow> heap \<times> addr list" where
  "mul_loop mat n h matrix =
     (if n < length matrix - 1
      then mul_loop mat (Suc n)
             (row_loop (matrix ! n) (matrix ! (n + 1)) mat 0 h) (matrix[n + 1 := mat])
      else (h, matrix))"
  by pat_completeness auto
termination
  by (relation "measure (\<lambda>(mat, n, h, matrix). length matrix - 1 - n)") auto

declare mul_loop.simps [simp del]

text \<open>
  \<^verbatim>\<open>multiply\<close> (lines 181-195). When the guard holds, line 183 evaluates
  \<^verbatim>\<open>new console.error(...)\<close>; \<^verbatim>\<open>console.error\<close> is not a constructor, so the
  \<^verbatim>\<open>new\<close> expression raises a \<^verbatim>\<open>TypeError\<close> before anything is thrown by the
  \<^verbatim>\<open>throw\<close> statement itself. Otherwise the call allocates the result buffer, runs
  the loop and returns the address of the result buffer, together with the store.
\<close>

definition multiply :: "heap \<Rightarrow> addr list \<Rightarrow> error + (heap \<times> addr)" where
  "multiply h matrix =
     (if array_lt_2 (map ((!) h) matrix)
      then Inl (TypeError ''console.error is not a constructor'')
      else
        let (h1, mat) = alloc h (replicate 16 0);
            (h2, matrix') = mul_loop mat 0 h1 matrix
        in Inr (h2, mat))"

text \<open>
  A call of \<^verbatim>\<open>multiply\<close> on arrays that the caller has just built and shares with
  nobody: the store of the call holds these arrays only, and the caller keeps the
  contents of the result.
\<close>

definition call_multiply :: "buffer list \<Rightarrow> error + buffer" where
  "call_multiply bs =
     (case multiply bs [0..<length bs] of
        Inl e \<Rightarrow> Inl e
      | Inr (h, mat) \<Rightarrow> Inr (h ! mat))"

section \<open>Rotation\<close>

text \<open>
  \<^verbatim>\<open>setRotate\<close> (lines 123-159). An angle is \<open>None\<close> when the argument is omitted
  (\<^verbatim>\<open>undefined\<close>). The tests \<^verbatim>\<open>if (x)\<close> hold for a number other than zero.
  The three array literals of the source are the three definitions below.
\<close>

definition truthy :: "real option \<Rightarrow> bool" where
  "truthy x = (case x of None \<Rightarrow> False | Some v \<Rightarrow> v \<noteq> 0)"

definition rotate_x_array :: "real \<Rightarrow> buffer" where
  "rotate_x_array x =
     (let angle = pi * x / 180; sin' = sin angle; cos' = cos angle
      in [1, 0, 0, 0,
          0, cos', sin', 0,
          0, - sin', cos', 0,
          0, 0, 0, 1])"

definition rotate_y_array :: "real \<Rightarrow> buffer" where
  "rotate_y_array y =
     (let angle = pi * y / 180; sin' = sin angle; cos' = cos angle
      in [cos', 0, - sin', 0,
          0, 1, 0, 0,
          sin', 0, cos', 0,
          0, 0, 0, 1])"

definition rotate_z_array :: "real \<Rightarrow> buffer" where
  "rotate_z_array z =
     (let angle = pi * z / 180; sin' = sin angle; cos' = cos angle
      in [cos', sin', 0, 0,
          - sin', cos', 0, 0,
          0, 0, 1, 0,
          0, 0, 0, 1])"

definition setRotate :: "real option \<Rightarrow> real option \<Rightarrow> real option \<Rightarrow> error + buffer" where
  "setRotate x y z =
     (let mat0 = replicate 16 0;
          mat1 = (case x of Some v \<Rightarrow> if v \<noteq> 0 then rotate_x_array v else mat0
                  | None \<Rightarrow> mat0);
          res2 = (case y of
                    Some v \<Rightarrow>
                      if v \<noteq> 0
                      then (let temp = rotate_y_array v
                            in if truthy x then call_multiply [mat1, temp] else Inr temp)
                      else Inr mat1
                  | None \<Rightarrow> Inr mat1)
      in case res2 of
           Inl e \<Rightarrow> Inl e
         | Inr mat2 \<Rightarrow>
             (case z of
                Some v \<Rightarrow>
                  if v \<noteq> 0
                  then (let temp = rotate_z_array v
                        in if truthy x \<or> truthy y then call_multiply [mat2, temp]
                           else Inr temp)
                  else Inr mat2
              | None \<Rightarrow> Inr mat2))"

section \<open>The product the specification describes\<close>

text \<open>
  The pairwise product in the specification's words: output index \<open>i\<close> (below 4)
  combines \<open>left[i]\<close>, \<open>left[i+4]\<close>, \<open>left[i+8]\<close>, \<open>left[i+12]\<close> weighted by
  \<open>right[0..3]\<close>, and the same with the right indices offset by 4, 8 and 12 for the
  output indices \<open>i+4\<close>, \<open>i+8\<close> and \<open>i+12\<close>. \<open>spec_fold\<close> is the chain
  \<open>M\<^sub>0\<close>, then \<open>result \<cdot> M\<^sub>1\<close>, then \<open>result \<cdot> M\<^sub>2\<close>, and so on.
\<close>

definition spec_entry :: "buffer \<Rightarrow> buffer \<Rightarrow> nat \<Rightarrow> real" where
  "spec_entry left right k =
     (let i = k mod 4; c = 4 * (k div 4)
      in left ! i * right ! c + left ! (i + 4) * right ! (c + 1)
         + left ! (i + 8) * right ! (c + 2) + left ! (i + 12) * right ! (c + 3))"

definition spec_product :: "buffer \<Rightarrow> buffer \<Rightarrow> buffer" where
  "spec_product left right = map (spec_entry left right) [0..<16]"

fun spec_fold :: "buffer list \<Rightarrow> buffer" where
  "spec_fold [] = []"
| "spec_fold (m # ms) = foldl spec_product m ms"

text \<open>
  The transform a matrix stands for, in the layout of the specification (column-major,
  the translation at indices 12, 13 and 14): the image of the point \<open>(x, y, z)\<close>.
\<close>

definition apply_point :: "buffer \<Rightarrow> real \<times> real \<times> real \<Rightarrow> real \<times> real \<times> real" where
  "apply_point m p =
     (case p of (x, y, z) \<Rightarrow>
        (m ! 0 * x + m ! 4 * y + m ! 8 * z + m ! 12,
         m ! 1 * x + m ! 5 * y + m ! 9 * z + m ! 13,
         m ! 2 * x + m ! 6 * y + m ! 10 * z + m ! 14))"

text \<open>
  The elementary rotations of the angles that are not zero, in the order X, Y, Z, and
  the elementary rotation of an axis or the identity matrix when the axis is skipped.
\<close>

definition axis_arrays :: "real option \<Rightarrow> real option \<Rightarrow> real option \<Rightarrow> buffer list" where
  "axis_arrays x y z =
     (case x of Some v \<Rightarrow> if v \<noteq> 0 then [rotate_x_array v] else [] | None \<Rightarrow> [])
     @ (case y of Some v \<Rightarrow> if v \<noteq> 0 then [rotate_y_array v] else [] | None \<Rightarrow> [])
     @ (case z of Some v \<Rightarrow> if v \<noteq> 0 then [rotate_z_array v] else [] | None \<Rightarrow> [])"

definition axis_or_identity :: "(real \<Rightarrow> buffer) \<Rightarrow> real option \<Rightarrow> buffer" where
  "axis_or_identity rot a =
     (case a of Some v \<Rightarrow> if v \<noteq> 0 then rot v else setIdentity | None \<Rightarrow> setIdentity)"

text \<open>
  What the loop body computes when the left operand is the result buffer itself: the
  stores of one row, each reading the buffer as the stores before it have left it, and
  the four rows of one pass.
\<close>

definition inplace_row :: "buffer \<Rightarrow> buffer \<Rightarrow> nat \<Rightarrow> buffer" where
  "inplace_row m R i =
     (let m1 = m[i := m ! i * R ! 0 + m ! (i + 4) * R ! 1
                   + m ! (i + 8) * R ! 2 + m ! (i + 12) * R ! 3];
          m2 = m1[i + 4 := m1 ! i * R ! 4 + m1 ! (i + 4) * R ! 5
                   + m1 ! (i + 8) * R ! 6 + m1 ! (i + 12) * R ! 7];
          m3 = m2[i + 8 := m2 ! i * R ! 8 + m2 ! (i + 4) * R ! 9
                   + m2 ! (i + 8) * R ! 10 + m2 ! (i + 12) * R ! 11];
          m4 = m3[i + 12 := m3 ! i * R ! 12 + m3 ! (i + 4) * R ! 13
                   + m3 ! (i + 8) * R ! 14 + m3 ! (i + 12) * R ! 15]
      in m4)"

definition inplace_product :: "buffer \<Rightarrow> buffer \<Rightarrow> buffer" where
  "inplace_product m R =
     inplace_row (inplace_row (inplace_row (inplace_row m R 0) R 1) R 2) R 3"

text \<open>A matrix of the data model: a buffer of 16 numbers at an allocated address.\<close>

definition is_matrix :: "heap \<Rightarrow> addr \<Rightarrow> bool" where
  "is_matrix h a = (a < length h \<and> length (h ! a) = 16)"

section \<open>Unfolding the loops\<close>

lemma row_loop_unfold:
  "row_loop l r mat 0 h =
     row_step l r mat 3 (row_step l r mat 2 (row_step l r mat 1 (row_step l r mat 0 h)))"
proof -
  have stop: "row_loop l r mat 4 h' = h'" for h'
    by (subst row_loop.simps) simp
  have step: "i < 4 \<Longrightarrow> row_loop l r mat i h' = row_loop l r mat (Suc i) (row_step l r mat i h')"
    for i h'
    by (subst row_loop.simps) simp
  have "row_loop l r mat 0 h =
      row_loop l r mat 4
        (row_step l r mat 3 (row_step l r mat 2 (row_step l r mat 1 (row_step l r mat 0 h))))"
    using step [of 0] step [of 1] step [of 2] step [of 3] by (simp add: eval_nat_numeral)
  then show ?thesis by (simp add: stop)
qed

lemma mul_loop_stop:
  "\<not> n < length matrix - 1 \<Longrightarrow> mul_loop mat n h matrix = (h, matrix)"
  by (subst mul_loop.simps) simp

lemma mul_loop_step:
  "n < length matrix - 1 \<Longrightarrow>
   mul_loop mat n h matrix =
     mul_loop mat (Suc n)
       (row_loop (matrix ! n) (matrix ! (n + 1)) mat 0 h) (matrix[n + 1 := mat])"
  by (subst mul_loop.simps) simp

section \<open>Reads and stores on a store with a new buffer at its end\<close>

lemma rd_append: "a < length h \<Longrightarrow> rd (h @ [m]) a i = h ! a ! i"
  by (simp add: rd_def nth_append)

lemma rd_new: "rd (h @ [m]) (length h) i = m ! i"
  by (simp add: rd_def)

lemma wr_new: "wr (h @ [m]) (length h) i v = h @ [m[i := v]]"
  by (simp add: wr_def)

lemma upt16: "[0..<16] = [0, 1, 2, 3, 4, 5, 6, 7, 8, 9, 10, 11, 12, 13, 14, 15]"
  by (simp add: upt_rec)

lemma replicate16:
  "replicate 16 (x::real) = [x, x, x, x, x, x, x, x, x, x, x, x, x, x, x, x]"
  by (simp add: eval_nat_numeral)

lemma spec_product_explicit:
  "spec_product L R =
    [L ! 0 * R ! 0 + L ! 4 * R ! 1 + L ! 8 * R ! 2 + L ! 12 * R ! 3,
     L ! 1 * R ! 0 + L ! 5 * R ! 1 + L ! 9 * R ! 2 + L ! 13 * R ! 3,
     L ! 2 * R ! 0 + L ! 6 * R ! 1 + L ! 10 * R ! 2 + L ! 14 * R ! 3,
     L ! 3 * R ! 0 + L ! 7 * R ! 1 + L ! 11 * R ! 2 + L ! 15 * R ! 3,
     L ! 0 * R ! 4 + L ! 4 * R ! 5 + L ! 8 * R ! 6 + L ! 12 * R ! 7,
     L ! 1 * R ! 4 + L ! 5 * R ! 5 + L ! 9 * R ! 6 + L ! 13 * R ! 7,
     L ! 2 * R ! 4 + L ! 6 * R ! 5 + L ! 10 * R ! 6 + L ! 14 * R ! 7,
     L ! 3 * R ! 4 + L ! 7 * R ! 5 + L ! 11 * R ! 6 + L ! 15 * R ! 7,
     L ! 0 * R ! 8 + L ! 4 * R ! 9 + L ! 8 * R ! 10 + L ! 12 * R ! 11,
     L ! 1 * R ! 8 + L ! 5 * R ! 9 + L ! 9 * R ! 10 + L ! 13 * R ! 11,
     L ! 2 * R ! 8 + L ! 6 * R ! 9 + L ! 10 * R ! 10 + L ! 14 * R ! 11,
     L ! 3 * R ! 8 + L ! 7 * R ! 9 + L ! 11 * R ! 10 + L ! 15 * R ! 11,
     L ! 0 * R ! 12 + L ! 4 * R ! 13 + L ! 8 * R ! 14 + L ! 12 * R ! 15,
     L ! 1 * R ! 12 + L ! 5 * R ! 13 + L ! 9 * R ! 14 + L ! 13 * R ! 15,
     L ! 2 * R ! 12 + L ! 6 * R ! 13 + L ! 10 * R ! 14 + L ! 14 * R ! 15,
     L ! 3 * R ! 12 + L ! 7 * R ! 13 + L ! 11 * R ! 14 + L ! 15 * R ! 15]"
  unfolding spec_product_def upt16
  by (simp add: spec_entry_def Let_def del: add_2_eq_Suc add_2_eq_Suc')

section \<open>One pass of the loop\<close>

text \<open>
  The first pass: both operands are buffers of the caller and the result buffer is
  new, so no store of the pass is read back by it.
\<close>

lemma row_step_fresh:
  assumes "l < length h" "r < length h"
  shows "row_step l r (length h) i (h @ [m]) =
     h @ [m[i := h ! l ! i * h ! r ! 0 + h ! l ! (i + 4) * h ! r ! 1
              + h ! l ! (i + 8) * h ! r ! 2 + h ! l ! (i + 12) * h ! r ! 3,
            i + 4 := h ! l ! i * h ! r ! 4 + h ! l ! (i + 4) * h ! r ! 5
              + h ! l ! (i + 8) * h ! r ! 6 + h ! l ! (i + 12) * h ! r ! 7,
            i + 8 := h ! l ! i * h ! r ! 8 + h ! l ! (i + 4) * h ! r ! 9
              + h ! l ! (i + 8) * h ! r ! 10 + h ! l ! (i + 12) * h ! r ! 11,
            i + 12 := h ! l ! i * h ! r ! 12 + h ! l ! (i + 4) * h ! r ! 13
              + h ! l ! (i + 8) * h ! r ! 14 + h ! l ! (i + 12) * h ! r ! 15]]"
  using assms by (simp add: row_step_def Let_def rd_append wr_new)

lemma row_loop_fresh:
  assumes "l < length h" "r < length h"
  shows "row_loop l r (length h) 0 (h @ [replicate 16 0]) = h @ [spec_product (h ! l) (h ! r)]"
  unfolding row_loop_unfold replicate16 spec_product_explicit
  using assms
  by (simp add: row_step_fresh del: add_2_eq_Suc add_2_eq_Suc')

text \<open>A later pass: the left operand is the result buffer.\<close>

lemma row_step_alias:
  assumes "r < length h"
  shows "row_step (length h) r (length h) i (h @ [m]) = h @ [inplace_row m (h ! r) i]"
  using assms by (simp add: row_step_def inplace_row_def Let_def rd_append rd_new wr_new)

lemma row_loop_alias:
  assumes "r < length h"
  shows "row_loop (length h) r (length h) 0 (h @ [m]) = h @ [inplace_product m (h ! r)]"
  using assms by (simp add: row_loop_unfold row_step_alias inplace_product_def)

section \<open>Calls with two and with three matrices\<close>

lemma multiply_pair:
  assumes "l < length h" "r < length h"
  shows "multiply h [l, r] = Inr (h @ [spec_product (h ! l) (h ! r)], length h)"
  using assms
  by (simp add: multiply_def array_lt_2_def alloc_def mul_loop_step mul_loop_stop
      row_loop_fresh)

lemma multiply_triple:
  assumes "a < length h" "b < length h" "c < length h"
  shows "multiply h [a, b, c] =
     Inr (h @ [inplace_product (spec_product (h ! a) (h ! b)) (h ! c)], length h)"
  using assms
  by (simp add: multiply_def array_lt_2_def alloc_def mul_loop_step mul_loop_stop
      row_loop_fresh row_loop_alias)

lemma call_multiply_pair: "call_multiply [L, R] = Inr (spec_product L R)"
  by (simp add: call_multiply_def upt_rec multiply_pair)



section \<open>Frame of a call\<close>

lemma wr_frame: "length (wr h a i v) = length h \<and> (\<forall>b. b \<noteq> a \<longrightarrow> wr h a i v ! b = h ! b)"
  by (simp add: wr_def)

lemma row_step_frame:
  "length (row_step l r mat i h) = length h
   \<and> (\<forall>b. b \<noteq> mat \<longrightarrow> row_step l r mat i h ! b = h ! b)"
  by (simp add: row_step_def Let_def wr_frame)

lemma row_loop_frame:
  "length (row_loop l r mat i h) = length h
   \<and> (\<forall>b. b \<noteq> mat \<longrightarrow> row_loop l r mat i h ! b = h ! b)"
proof (induction l r mat i h rule: row_loop.induct)
  case (1 l r mat i h)
  show ?case
  proof (cases "i < 4")
    case True
    then have "row_loop l r mat i h = row_loop l r mat (Suc i) (row_step l r mat i h)"
      by (subst row_loop.simps) simp
    with 1 [OF True] show ?thesis
      by (simp add: row_step_frame)
  next
    case False
    then have "row_loop l r mat i h = h"
      by (subst row_loop.simps) simp
    then show ?thesis by simp
  qed
qed

lemma mul_loop_frame:
  "length (fst (mul_loop mat n h matrix)) = length h
   \<and> (\<forall>b. b \<noteq> mat \<longrightarrow> fst (mul_loop mat n h matrix) ! b = h ! b)"
proof (induction mat n h matrix rule: mul_loop.induct)
  case (1 mat n h matrix)
  show ?case
  proof (cases "n < length matrix - 1")
    case True
    with 1 [OF True] show ?thesis
      by (simp add: mul_loop_step row_loop_frame)
  next
    case False
    then show ?thesis by (simp add: mul_loop_stop)
  qed
qed

section \<open>Buffers of 16 elements\<close>

lemma buffer16:
  assumes "length (m::buffer) = 16"
  obtains m0 m1 m2 m3 m4 m5 m6 m7 m8 m9 m10 m11 m12 m13 m14 m15
  where "m = [m0, m1, m2, m3, m4, m5, m6, m7, m8, m9, m10, m11, m12, m13, m14, m15]"
proof -
  from assms have "\<exists>m0 m1 m2 m3 m4 m5 m6 m7 m8 m9 m10 m11 m12 m13 m14 m15.
      m = [m0, m1, m2, m3, m4, m5, m6, m7, m8, m9, m10, m11, m12, m13, m14, m15]"
    by (simp add: eval_nat_numeral length_Suc_conv) blast
  then show ?thesis using that by blast
qed

lemma array_to_number_matrix: "length m = 16 \<Longrightarrow> array_to_number [m] = None"
  by (erule buffer16) simp

lemma array_to_number_many: "array_to_number (a # b # bs) = None"
  by simp

lemma spec_product_identity_right: "length M = 16 \<Longrightarrow> spec_product M setIdentity = M"
  by (erule buffer16) (simp add: spec_product_explicit setIdentity_def)

lemma spec_product_identity_left: "length M = 16 \<Longrightarrow> spec_product setIdentity M = M"
  by (erule buffer16) (simp add: spec_product_explicit setIdentity_def)


section \<open>Claims about \<open>multiply\<close>\<close>

text \<open>
  C1. The claim: for two or more 16-element matrices, \<open>multiply\<close> returns the
  left-to-right fold of the pairwise product, each product following the stated index
  arithmetic. For two matrices it does (\<open>multiply_pair\<close>). From the third matrix on
  the left operand of a pass is the result buffer that the pass is writing, so a store
  is read back by the stores after it (\<open>multiply_triple\<close>). The theorem evaluates the
  call \<open>multiply(I, I, R)\<close>, \<open>R\<close> the quarter turn about Z: the fold of the products
  is \<open>R\<close>, with \<open>-1\<close> at index 4 and \<open>0\<close> at index 5; the call returns a buffer with
  \<open>0\<close> at index 4 and \<open>-1\<close> at index 5.
\<close>

theorem multiply_three_not_fold:
  "multiply
     [setIdentity, setIdentity, [0, 1, 0, 0, - 1, 0, 0, 0, 0, 0, 1, 0, 0, 0, 0, 1]]
     [0, 1, 2]
   = Inr ([setIdentity, setIdentity, [0, 1, 0, 0, - 1, 0, 0, 0, 0, 0, 1, 0, 0, 0, 0, 1],
           [0, 1, 0, 0, 0, - 1, 0, 0, 0, 0, 1, 0, 0, 0, 0, 1]], 3)
   \<and> spec_fold [setIdentity, setIdentity, [0, 1, 0, 0, - 1, 0, 0, 0, 0, 0, 1, 0, 0, 0, 0, 1]]
     = [0, 1, 0, 0, - 1, 0, 0, 0, 0, 0, 1, 0, 0, 0, 0, 1]"
proof
  have p: "spec_product setIdentity setIdentity = setIdentity"
    by (rule spec_product_identity_left) (simp add: setIdentity_def)
  have q: "inplace_product setIdentity [0, 1, 0, 0, - 1, 0, 0, 0, 0, 0, 1, 0, 0, 0, 0, 1]
      = [0, 1, 0, 0, 0, - 1, 0, 0, 0, 0, 1, 0, 0, 0, 0, 1]"
    by (simp add: inplace_product_def inplace_row_def Let_def setIdentity_def
        del: add_2_eq_Suc add_2_eq_Suc')
  show "multiply
     [setIdentity, setIdentity, [0, 1, 0, 0, - 1, 0, 0, 0, 0, 0, 1, 0, 0, 0, 0, 1]]
     [0, 1, 2]
   = Inr ([setIdentity, setIdentity, [0, 1, 0, 0, - 1, 0, 0, 0, 0, 0, 1, 0, 0, 0, 0, 1],
           [0, 1, 0, 0, 0, - 1, 0, 0, 0, 0, 1, 0, 0, 0, 0, 1]], 3)"
    by (simp add: multiply_triple p q)
  show "spec_fold [setIdentity, setIdentity, [0, 1, 0, 0, - 1, 0, 0, 0, 0, 0, 1, 0, 0, 0, 0, 1]]
     = [0, 1, 0, 0, - 1, 0, 0, 0, 0, 0, 1, 0, 0, 0, 0, 1]"
    by (simp add: p spec_product_identity_left)
qed

text \<open>
  C7. Every buffer that exists before a call of \<open>multiply\<close> holds the same elements
  after it, the arguments among them: the stores of the loop go to the result buffer,
  which the call allocates, and line 192 writes into the array of the rest parameter,
  which is local to the call. (A call that ends with an error has made no store.)
\<close>

theorem multiply_keeps_arguments:
  assumes "multiply h matrix = Inr (h', mat)"
  shows "length h \<le> length h' \<and> (\<forall>a<length h. h' ! a = h ! a)"
proof -
  from assms have h': "h' = fst (mul_loop (length h) 0 (h @ [replicate 16 0]) matrix)"
    by (auto simp: multiply_def alloc_def split: if_splits prod.splits)
  have len: "length h' = Suc (length h)"
    by (simp add: h' mul_loop_frame)
  have "h' ! a = h ! a" if "a < length h" for a
    using that by (simp add: h' mul_loop_frame nth_append)
  with len show ?thesis by simp
qed

theorem multiply_keeps_arguments_witness:
  "multiply [setIdentity, setScale 2 3 4] [0, 1]
     = Inr ([setIdentity, setScale 2 3 4, setScale 2 3 4], 2)
   \<and> [setIdentity, setScale 2 3 4, setScale 2 3 4] ! 0 = setIdentity
   \<and> [setIdentity, setScale 2 3 4, setScale 2 3 4] ! 1 = setScale 2 3 4"
proof -
  have c: "multiply [setIdentity, setScale 2 3 4] [0, 1]
     = Inr ([setIdentity, setScale 2 3 4, setScale 2 3 4], 2)"
    by (simp add: multiply_pair spec_product_identity_left setScale_def)
  from multiply_keeps_arguments [OF c] c show ?thesis by simp
qed

text \<open>
  C8. The identity law on the code: with \<open>M\<close> a buffer of 16 numbers and \<open>I\<close> the
  matrix of \<open>setIdentity\<close>, \<open>multiply(M, I)\<close> and \<open>multiply(I, M)\<close> return a new
  buffer with the elements of \<open>M\<close>.
\<close>

theorem multiply_identity_law:
  assumes "is_matrix h a" and "i < length h" and "h ! i = setIdentity"
  shows "multiply h [a, i] = Inr (h @ [h ! a], length h)
       \<and> multiply h [i, a] = Inr (h @ [h ! a], length h)"
  using assms
  by (simp add: is_matrix_def multiply_pair spec_product_identity_left
      spec_product_identity_right)

theorem multiply_identity_law_witness:
  "multiply [setTranslate 5 6 7, setIdentity] [0, 1]
     = Inr ([setTranslate 5 6 7, setIdentity, setTranslate 5 6 7], 2)
   \<and> multiply [setTranslate 5 6 7, setIdentity] [1, 0]
     = Inr ([setTranslate 5 6 7, setIdentity, setTranslate 5 6 7], 2)"
  using multiply_identity_law [of "[setTranslate 5 6 7, setIdentity]" 0 1]
  by (simp add: is_matrix_def setTranslate_def)

text \<open>
  C10. A call with exactly one matrix raises no error and returns a new buffer of 16
  zeros: the address returned is not an address of the store before the call, and no
  pass of the loop runs.
\<close>

theorem multiply_one_matrix:
  assumes "is_matrix h a"
  shows "multiply h [a] = Inr (h @ [replicate 16 0], length h)"
  using assms
  by (simp add: is_matrix_def multiply_def array_lt_2_def array_to_number_matrix alloc_def
      mul_loop_stop)

theorem multiply_one_matrix_witness:
  "multiply [setScale 2 3 4] [0]
     = Inr ([setScale 2 3 4, [0, 0, 0, 0, 0, 0, 0, 0, 0, 0, 0, 0, 0, 0, 0, 0]], 1)"
  using multiply_one_matrix [of "[setScale 2 3 4]" 0]
  by (simp add: is_matrix_def setScale_def replicate16)


text \<open>
  C9. The claim: the guard is false for every call with fewer than two matrices, so the
  error of line 183 is never raised. With no matrix at all the array prints as the
  empty string, which converts to 0, and the guard is true; the call then ends with the
  \<^verbatim>\<open>TypeError\<close> of \<^verbatim>\<open>new console.error\<close>.
\<close>

theorem multiply_guard_no_matrix:
  "length ([] :: addr list) < 2
   \<and> array_lt_2 (map ((!) ([] :: heap)) [])
   \<and> multiply [] [] = Inl (TypeError ''console.error is not a constructor'')"
  by (simp add: multiply_def array_lt_2_def)

text \<open>
  C9, amended. The guard is false for every call with one or more 16-element matrices,
  in particular for a call with one matrix. For a call with no matrix it is true, and
  the call ends with a \<^verbatim>\<open>TypeError\<close>. No call ends with an error that carries
  the message \<^verbatim>\<open>Invalid number of arguments passed\<close>.
\<close>

theorem multiply_guard_amended:
  "(matrix \<noteq> [] \<and> (\<forall>a\<in>set matrix. is_matrix h a) \<longrightarrow> \<not> array_lt_2 (map ((!) h) matrix))
   \<and> array_lt_2 (map ((!) h) [])
   \<and> multiply h [] = Inl (TypeError ''console.error is not a constructor'')
   \<and> multiply h matrix \<noteq> Inl (Error ''Invalid number of arguments passed'')"
proof (intro conjI impI)
  assume a: "matrix \<noteq> [] \<and> (\<forall>a\<in>set matrix. is_matrix h a)"
  show "\<not> array_lt_2 (map ((!) h) matrix)"
  proof (cases matrix)
    case Nil
    with a show ?thesis by simp
  next
    case (Cons x xs)
    show ?thesis
    proof (cases xs)
      case Nil
      with a Cons show ?thesis
        by (simp add: array_lt_2_def is_matrix_def array_to_number_matrix)
    next
      case (Cons y ys)
      with \<open>matrix = x # xs\<close> show ?thesis
        by (simp add: array_lt_2_def array_to_number_many)
    qed
  qed
next
  show "array_lt_2 (map ((!) h) [])"
    by (simp add: array_lt_2_def)
next
  show "multiply h [] = Inl (TypeError ''console.error is not a constructor'')"
    by (simp add: multiply_def array_lt_2_def)
next
  show "multiply h matrix \<noteq> Inl (Error ''Invalid number of arguments passed'')"
    by (simp add: multiply_def split: prod.splits)
qed

theorem multiply_guard_amended_witness:
  "\<not> array_lt_2 (map ((!) [setIdentity]) [0])
   \<and> multiply [setIdentity] [] = Inl (TypeError ''console.error is not a constructor'')
   \<and> multiply [setIdentity] [0] \<noteq> Inl (Error ''Invalid number of arguments passed'')"
  using multiply_guard_amended [of "[0]" "[setIdentity]"]
  by (simp add: is_matrix_def setIdentity_def)

section \<open>Claims about the projections\<close>

lemma ortho_scale_entries:
  assumes "left \<noteq> right" and "top' \<noteq> bottom" and "near \<noteq> far"
  shows "\<exists>m. setOrtogonalProjection left right top' bottom near far = Inr m
    \<and> m ! 0 = 2 / (right - left) \<and> m ! 5 = 2 / (top' - bottom) \<and> m ! 10 = - 2 / (far - near)
    \<and> m ! 12 = - (right + left) * (right - left)
    \<and> m ! 13 = - (top' + bottom) * (top' - bottom)
    \<and> m ! 14 = - (far + near) * (far - near)"
  using assms by (simp add: setOrtogonalProjection_def Let_def)

text \<open>
  C2. The claim: for a volume that is not degenerate the orthographic matrix scales each
  axis by 2 over the extent and its translation maps the volume onto the cube from -1
  to 1. The scale entries are as claimed; the translation entries of line 36 multiply by
  the extent where the orthographic matrix divides by it (\<open>ortho_scale_entries\<close>).
  The theorem evaluates \<open>setOrtogonalProjection(0, 2, 1, -1, 0, 1)\<close>: the corner
  \<open>(left, bottom, -near)\<close> goes to \<open>(-4, -1, -1)\<close> and the corner
  \<open>(right, top, -far)\<close> to \<open>(-2, 1, 1)\<close>, where the cube has \<open>(-1, -1, -1)\<close> and
  \<open>(1, 1, 1)\<close>.
\<close>

theorem ortho_translation_off_cube:
  "setOrtogonalProjection 0 2 1 (- 1) 0 1
     = Inr [1, 0, 0, 0, 0, 1, 0, 0, 0, 0, - 2, 0, - 4, 0, - 1, 1]
   \<and> apply_point [1, 0, 0, 0, 0, 1, 0, 0, 0, 0, - 2, 0, - 4, 0, - 1, 1] (0, - 1, 0)
     = (- 4, - 1, - 1)
   \<and> apply_point [1, 0, 0, 0, 0, 1, 0, 0, 0, 0, - 2, 0, - 4, 0, - 1, 1] (2, 1, - 1)
     = (- 2, 1, 1)"
  by (simp add: setOrtogonalProjection_def apply_point_def)




section \<open>Claims about the rotation\<close>

lemma length_rotate_arrays:
  "length (rotate_x_array v) = 16" "length (rotate_y_array v) = 16"
  "length (rotate_z_array v) = 16" "length setIdentity = 16"
  by (simp_all add: rotate_x_array_def rotate_y_array_def rotate_z_array_def setIdentity_def
      Let_def)

lemma length_spec_product: "length (spec_product L R) = 16"
  by (simp add: spec_product_def)

lemma setRotate_cases:
  "setRotate x y z =
     Inr (case axis_arrays x y z of [] \<Rightarrow> replicate 16 0 | m # ms \<Rightarrow> spec_fold (m # ms))"
  by (cases x; cases y; cases z)
    (simp_all add: setRotate_def axis_arrays_def truthy_def call_multiply_pair Let_def)

lemma spec_fold_identities:
  "truthy x \<or> truthy y \<or> truthy z \<Longrightarrow>
   spec_fold (axis_arrays x y z) =
     spec_product
       (spec_product (axis_or_identity rotate_x_array x) (axis_or_identity rotate_y_array y))
       (axis_or_identity rotate_z_array z)"
  by (cases x; cases y; cases z)
    (auto simp: axis_arrays_def axis_or_identity_def truthy_def length_rotate_arrays
      length_spec_product spec_product_identity_left spec_product_identity_right)

text \<open>
  C3. For every combination of angles the constructor returns the product of the
  elementary rotations of the angles that are not zero, taken in the order X, Y, Z and
  folded from the left (one rotation alone is returned as it is; with no rotation at all
  the buffer of zeros is returned). When at least one angle is not zero, this is the
  product of the three axes in that order with the identity matrix in the place of every
  skipped axis.
\<close>

theorem setRotate_composition:
  "setRotate x y z =
     Inr (case axis_arrays x y z of [] \<Rightarrow> replicate 16 0 | m # ms \<Rightarrow> spec_fold (m # ms))
   \<and> (truthy x \<or> truthy y \<or> truthy z \<longrightarrow>
        setRotate x y z =
          Inr (spec_product
                (spec_product (axis_or_identity rotate_x_array x)
                   (axis_or_identity rotate_y_array y))
                (axis_or_identity rotate_z_array z)))"
proof (intro conjI impI)
  show "setRotate x y z =
     Inr (case axis_arrays x y z of [] \<Rightarrow> replicate 16 0 | m # ms \<Rightarrow> spec_fold (m # ms))"
    by (rule setRotate_cases)
next
  assume t: "truthy x \<or> truthy y \<or> truthy z"
  then have "axis_arrays x y z \<noteq> []"
    by (auto simp: axis_arrays_def truthy_def split: option.splits)
  then have "setRotate x y z = Inr (spec_fold (axis_arrays x y z))"
    by (simp add: setRotate_cases split: list.splits)
  with t show "setRotate x y z =
      Inr (spec_product
            (spec_product (axis_or_identity rotate_x_array x)
               (axis_or_identity rotate_y_array y))
            (axis_or_identity rotate_z_array z))"
    by (simp add: spec_fold_identities)
qed

theorem setRotate_composition_witness:
  "setRotate (Some 90) None (Some 180) =
     Inr (spec_product (rotate_x_array 90) (rotate_z_array 180))
   \<and> setRotate (Some 90) None (Some 180) =
     Inr (spec_product (spec_product (rotate_x_array 90) setIdentity) (rotate_z_array 180))"
proof -
  have t: "truthy (Some 90) \<or> truthy None \<or> truthy (Some 180)"
    by (simp add: truthy_def)
  have a: "axis_arrays (Some 90) None (Some 180) = [rotate_x_array 90, rotate_z_array 180]"
    by (simp add: axis_arrays_def)
  have b: "axis_or_identity rotate_x_array (Some 90) = rotate_x_array 90"
    "axis_or_identity rotate_y_array None = setIdentity"
    "axis_or_identity rotate_z_array (Some 180) = rotate_z_array 180"
    by (simp_all add: axis_or_identity_def)
  note c = setRotate_composition [of "Some 90" None "Some 180"]
  from c [THEN conjunct1] have "setRotate (Some 90) None (Some 180) =
      Inr (spec_product (rotate_x_array 90) (rotate_z_array 180))"
    unfolding a by simp
  moreover from c [THEN conjunct2, THEN mp, OF t]
  have "setRotate (Some 90) None (Some 180) =
      Inr (spec_product (spec_product (rotate_x_array 90) setIdentity) (rotate_z_array 180))"
    unfolding b .
  ultimately show ?thesis by (rule conjI)
qed

text \<open>
  C4. When no angle is a number other than zero (each is zero or omitted), the
  constructor returns the buffer of 16 zeros, which is not the identity matrix.
\<close>

theorem setRotate_no_angle:
  assumes "\<not> truthy x" and "\<not> truthy y" and "\<not> truthy z"
  shows "setRotate x y z = Inr (replicate 16 0) \<and> replicate 16 0 \<noteq> setIdentity"
proof -
  from assms have "axis_arrays x y z = []"
    by (auto simp: axis_arrays_def truthy_def split: option.splits)
  then have "setRotate x y z = Inr (replicate 16 0)"
    by (simp add: setRotate_cases)
  moreover have "replicate 16 0 \<noteq> setIdentity"
    by (simp add: replicate16 setIdentity_def)
  ultimately show ?thesis by simp
qed

theorem setRotate_no_angle_witness:
  "setRotate (Some 0) None (Some 0) = Inr [0, 0, 0, 0, 0, 0, 0, 0, 0, 0, 0, 0, 0, 0, 0, 0]"
  using setRotate_no_angle [of "Some 0" None "Some 0"]
  by (simp add: truthy_def replicate16)

lemma affine_last_column:
  "setIdentity ! 3 = 0 \<and> setIdentity ! 7 = 0 \<and> setIdentity ! 11 = 0 \<and> setIdentity ! 15 = 1"
  "setTranslate x y z ! 3 = 0 \<and> setTranslate x y z ! 7 = 0 \<and> setTranslate x y z ! 11 = 0
   \<and> setTranslate x y z ! 15 = 1"
  "setScale x y z ! 3 = 0 \<and> setScale x y z ! 7 = 0 \<and> setScale x y z ! 11 = 0
   \<and> setScale x y z ! 15 = 1"
  by (simp_all add: setIdentity_def setTranslate_def setScale_def)

lemma rotation_last_column:
  assumes "truthy a \<or> truthy b \<or> truthy c"
  shows "\<exists>m. setRotate a b c = Inr m \<and> m ! 3 = 0 \<and> m ! 7 = 0 \<and> m ! 11 = 0 \<and> m ! 15 = 1"
  using assms
  by (cases a; cases b; cases c)
    (auto simp: setRotate_cases axis_arrays_def truthy_def spec_product_explicit
      rotate_x_array_def rotate_y_array_def rotate_z_array_def Let_def)

text \<open>
  C5. The claim: every matrix of \<open>setTranslate\<close>, \<open>setScale\<close>, \<open>setRotate\<close> (for any
  angles, all zero included) and \<open>setIdentity\<close> has 0 at the indices 3, 7 and 11 and 1
  at index 15. It holds for the first two, for the identity and for a rotation with an
  angle that is not zero (\<open>affine_last_column\<close>, \<open>rotation_last_column\<close>). The theorem evaluates
  \<open>setRotate(0, 0, 0)\<close>: the buffer of zeros, with 0 at index 15.
\<close>

theorem setRotate_zero_last_column:
  "setRotate (Some 0) (Some 0) (Some 0)
     = Inr [0, 0, 0, 0, 0, 0, 0, 0, 0, 0, 0, 0, 0, 0, 0, 0]
   \<and> [0, 0, 0, 0, 0, 0, 0, 0, 0, 0, 0, 0, 0, 0, 0, 0 :: real] ! 15 \<noteq> 1"
  by (simp add: setRotate_cases axis_arrays_def replicate16)

end
